theory Spec2Isabelle
  imports Main "HOL-Library.Multiset" "HOL-Library.Sublist"
begin

section \<open>Python values used by \<^verbatim>\<open>utils_library.py\<close>\<close>

text \<open>
  Python integers are unbounded, so they are \<^typ>\<open>int\<close>. A grid is a list of rows, a row a
  list of integers. An exception is a value: its class and the text \<^verbatim>\<open>str(e)\<close> gives.
  Only classes deriving from \<^verbatim>\<open>Exception\<close> are modelled (the ones an
  \<^verbatim>\<open>except Exception\<close> clause can see); cancellation and interpreter exit are not.
\<close>

datatype exc_class =
    ValueError
  | IndexError
  | ClientConnectionError
  | ClientResponseError
  | ServerTimeoutError
  | ServerDisconnectedError
  | TimeoutError
  | OtherException

datatype py_exception = Exc (exc_cls: exc_class) (exc_str: string)

type_synonym grid = "int list list"

text \<open>
  \<^verbatim>\<open>xs[i]\<close> on a Python list: a negative index counts from the end, and an index outside
  \<^verbatim>\<open>-len(xs) .. len(xs) - 1\<close> raises \<^verbatim>\<open>IndexError\<close>.
\<close>

definition py_getitem :: "'a list \<Rightarrow> int \<Rightarrow> py_exception + 'a" where
  "py_getitem xs i =
     (let n = int (length xs); k = (if i < 0 then i + n else i)
      in if 0 \<le> k \<and> k < n then Inr (xs ! nat k)
         else Inl (Exc IndexError ''list index out of range''))"

text \<open>\<^verbatim>\<open>matrix[row][col]\<close>: the row is fetched first, then the cell in it.\<close>

definition py_cell :: "grid \<Rightarrow> int \<Rightarrow> int \<Rightarrow> py_exception + int" where
  "py_cell matrix row col =
     (case py_getitem matrix row of Inl e \<Rightarrow> Inl e | Inr r \<Rightarrow> py_getitem r col)"

text \<open>
  A reader that accepts only the indices \<^verbatim>\<open>0 .. len - 1\<close>. It is not in the source: it is the
  yardstick for the statement that the traversal never leaves the grid, not even through
  Python's negative indices.
\<close>

definition strict_getitem :: "'a list \<Rightarrow> int \<Rightarrow> py_exception + 'a" where
  "strict_getitem xs i =
     (if 0 \<le> i \<and> i < int (length xs) then Inr (xs ! nat i)
      else Inl (Exc IndexError ''list index out of range''))"

definition strict_cell :: "grid \<Rightarrow> int \<Rightarrow> int \<Rightarrow> py_exception + int" where
  "strict_cell matrix row col =
     (case strict_getitem matrix row of Inl e \<Rightarrow> Inl e | Inr r \<Rightarrow> strict_getitem r col)"

text \<open>\<^verbatim>\<open>range(a, b)\<close> and \<^verbatim>\<open>range(a, b, -1)\<close>, as the lists of the values they yield.\<close>

definition py_range :: "int \<Rightarrow> int \<Rightarrow> int list" where
  "py_range a b = [a..b - 1]"

definition py_range_down :: "int \<Rightarrow> int \<Rightarrow> int list" where
  "py_range_down a b = rev [b + 1..a]"

section \<open>\<^verbatim>\<open>counterclockwise_traversal\<close>\<close>

text \<open>
  The two shapes of \<^verbatim>\<open>for\<close> loop in the function: one walks a column (the row index runs, the
  column is fixed), the other walks a row. Each iteration reads one cell and appends it to
  \<^verbatim>\<open>result\<close>; a read that raises ends the loop with the exception. The cell reader is a
  parameter so that the same loops can be run with \<^const>\<open>py_cell\<close> and with
  \<^const>\<open>strict_cell\<close>.
\<close>

fun walk_column ::
  "(grid \<Rightarrow> int \<Rightarrow> int \<Rightarrow> py_exception + int) \<Rightarrow> grid \<Rightarrow> int list \<Rightarrow> int \<Rightarrow> int list
     \<Rightarrow> py_exception + int list" where
  "walk_column rd matrix [] col result = Inr result"
| "walk_column rd matrix (row # rows) col result =
     (case rd matrix row col of
        Inl e \<Rightarrow> Inl e
      | Inr v \<Rightarrow> walk_column rd matrix rows col (result @ [v]))"

fun walk_row ::
  "(grid \<Rightarrow> int \<Rightarrow> int \<Rightarrow> py_exception + int) \<Rightarrow> grid \<Rightarrow> int \<Rightarrow> int list \<Rightarrow> int list
     \<Rightarrow> py_exception + int list" where
  "walk_row rd matrix row [] result = Inr result"
| "walk_row rd matrix row (col # cols) result =
     (case rd matrix row col of
        Inl e \<Rightarrow> Inl e
      | Inr v \<Rightarrow> walk_row rd matrix row cols (result @ [v]))"

text \<open>
  One pass through the body of the \<^verbatim>\<open>while\<close> loop (source lines 49 to 69), from the bounds and
  the result so far to the new bounds and result.
\<close>

definition loop_body ::
  "(grid \<Rightarrow> int \<Rightarrow> int \<Rightarrow> py_exception + int) \<Rightarrow> grid \<Rightarrow> int \<Rightarrow> int \<Rightarrow> int \<Rightarrow> int \<Rightarrow> int list
     \<Rightarrow> py_exception + (int \<times> int \<times> int \<times> int \<times> int list)" where
  "loop_body rd matrix row_start row_end col_start col_end result =
     (case walk_column rd matrix (py_range row_start (row_end + 1)) col_start result of
        Inl e \<Rightarrow> Inl e
      | Inr result1 \<Rightarrow>
     (let col_start1 = col_start + 1 in
      case walk_row rd matrix row_end (py_range col_start1 (col_end + 1)) result1 of
        Inl e \<Rightarrow> Inl e
      | Inr result2 \<Rightarrow>
     (let row_end1 = row_end - 1 in
      case (if col_start1 \<le> col_end
            then (case walk_column rd matrix (py_range_down row_end1 (row_start - 1))
                         col_end result2 of
                    Inl e \<Rightarrow> Inl e
                  | Inr r \<Rightarrow> Inr (r, col_end - 1))
            else Inr (result2, col_end)) of
        Inl e \<Rightarrow> Inl e
      | Inr (result3, col_end1) \<Rightarrow>
     (case (if row_start \<le> row_end1
            then (case walk_row rd matrix row_start (py_range_down col_end1 (col_start1 - 1))
                         result3 of
                    Inl e \<Rightarrow> Inl e
                  | Inr r \<Rightarrow> Inr (r, row_start + 1))
            else Inr (result3, row_start)) of
        Inl e \<Rightarrow> Inl e
      | Inr (result4, row_start1) \<Rightarrow>
          Inr (row_start1, row_end1, col_start1, col_end1, result4)))))"

text \<open>
  The \<^verbatim>\<open>while\<close> loop. Every pass adds one to \<^verbatim>\<open>col_start\<close> and never raises
  \<^verbatim>\<open>col_end\<close>, which is why it ends.
\<close>

function traverse_loop ::
  "(grid \<Rightarrow> int \<Rightarrow> int \<Rightarrow> py_exception + int) \<Rightarrow> grid \<Rightarrow> int \<Rightarrow> int \<Rightarrow> int \<Rightarrow> int \<Rightarrow> int list
     \<Rightarrow> py_exception + int list" where
  "traverse_loop rd matrix row_start row_end col_start col_end result =
     (if row_start \<le> row_end \<and> col_start \<le> col_end
      then (case loop_body rd matrix row_start row_end col_start col_end result of
              Inl e \<Rightarrow> Inl e
            | Inr (row_start1, row_end1, col_start1, col_end1, result1) \<Rightarrow>
                traverse_loop rd matrix row_start1 row_end1 col_start1 col_end1 result1)
      else Inr result)"
  by pat_completeness auto
termination
proof (relation "measure (\<lambda>(rd, matrix, row_start, row_end, col_start, col_end, result).
                            nat (col_end - col_start + 1))")
  show "wf (measure (\<lambda>(rd :: grid \<Rightarrow> int \<Rightarrow> int \<Rightarrow> py_exception + int, matrix :: grid,
                       row_start :: int, row_end :: int, col_start :: int, col_end :: int,
                       result :: int list). nat (col_end - col_start + 1)))"
    by simp
next
  fix rd :: "grid \<Rightarrow> int \<Rightarrow> int \<Rightarrow> py_exception + int"
  fix matrix :: grid and row_start row_end col_start col_end :: int and result :: "int list"
  fix x2 :: "int \<times> int \<times> int \<times> int \<times> int list"
  fix x1 :: int and x2a :: "int \<times> int \<times> int \<times> int list"
  fix x1a :: int and x2b :: "int \<times> int \<times> int list"
  fix x1b :: int and x2c :: "int \<times> int list" and x1c :: int and x2d :: "int list"
  assume guard: "row_start \<le> row_end \<and> col_start \<le> col_end"
    and body: "loop_body rd matrix row_start row_end col_start col_end result = Inr x2"
    and unpack: "(x1, x2a) = x2" "(x1a, x2b) = x2a" "(x1b, x2c) = x2b" "(x1c, x2d) = x2c"
  from body unpack have "x1b = col_start + 1 \<and> x1c \<le> col_end"
    by (auto simp: loop_body_def Let_def split: sum.splits if_splits prod.splits)
  with guard show "((rd, matrix, x1, x1a, x1b, x1c, x2d),
                    (rd, matrix, row_start, row_end, col_start, col_end, result))
        \<in> measure (\<lambda>(rd, matrix, row_start, row_end, col_start, col_end, result).
                      nat (col_end - col_start + 1))"
    by simp
qed

text \<open>
  The function itself, with the reader as a parameter: the empty grid returns at once;
  otherwise the bounds start at the outer edges, \<^verbatim>\<open>col_end\<close> being taken from row 0.
\<close>

definition traversal_with ::
  "(grid \<Rightarrow> int \<Rightarrow> int \<Rightarrow> py_exception + int) \<Rightarrow> grid \<Rightarrow> py_exception + int list" where
  "traversal_with rd matrix =
     (if matrix = [] then Inr []
      else traverse_loop rd matrix 0 (int (length matrix) - 1)
             0 (int (length (matrix ! 0)) - 1) [])"

definition counterclockwise_traversal :: "grid \<Rightarrow> py_exception + int list" where
  "counterclockwise_traversal matrix = traversal_with py_cell matrix"

section \<open>Text to grid: the parsing steps\<close>

text \<open>
  A text is a \<^typ>\<open>string\<close>; a \<^typ>\<open>char\<close> stands for one code point below 256. Python's
  \<^verbatim>\<open>str.strip()\<close> removes the characters for which \<^verbatim>\<open>str.isspace\<close> holds from both ends; below
  256 these are tab to carriage return (9 to 13), the separators 28 to 31, the space, and the
  code points 133 and 160.
\<close>

definition is_space :: "char \<Rightarrow> bool" where
  "is_space c =
     (let n = (of_char c :: nat)
      in (9 \<le> n \<and> n \<le> 13) \<or> (28 \<le> n \<and> n \<le> 32) \<or> n = 133 \<or> n = 160)"

definition py_strip :: "string \<Rightarrow> string" where
  "py_strip s = rev (dropWhile is_space (rev (dropWhile is_space s)))"

text \<open>
  \<^verbatim>\<open>s.split(sep)\<close> for a separator of one character: the pieces between the separators, empty
  pieces included, so the result is never the empty list.
\<close>

fun py_split :: "char \<Rightarrow> string \<Rightarrow> string list" where
  "py_split sep [] = [[]]"
| "py_split sep (c # cs) =
     (if c = sep then [] # py_split sep cs
      else (case py_split sep cs of [] \<Rightarrow> [[c]] | w # ws \<Rightarrow> (c # w) # ws))"

text \<open>The slice \<^verbatim>\<open>xs[1:-1]\<close>: without its first and last element, empty when there are fewer than three.\<close>

definition slice_1_m1 :: "'a list \<Rightarrow> 'a list" where
  "slice_1_m1 xs = tl (butlast xs)"

text \<open>
  \<^verbatim>\<open>int(s)\<close> for a string, in base 10 (CPython 3.11). White space at both ends is dropped,
  where white space is narrower than for \<^verbatim>\<open>str.strip()\<close>: the separators 28 to 31 are not
  dropped, so a field that begins or ends with one is rejected. One sign may come first, then
  decimal digits, where single underscores may stand between digits. A literal with more than
  4300 digits (the default of \<^verbatim>\<open>sys.get_int_max_str_digits()\<close>; underscores are not counted)
  is rejected as well. \<open>None\<close> stands for the \<^verbatim>\<open>ValueError\<close> that \<^verbatim>\<open>int\<close> raises.
\<close>

definition is_int_space :: "char \<Rightarrow> bool" where
  "is_int_space c =
     (let n = (of_char c :: nat)
      in (9 \<le> n \<and> n \<le> 13) \<or> n = 32 \<or> n = 133 \<or> n = 160)"

definition is_digit :: "char \<Rightarrow> bool" where
  "is_digit c = (48 \<le> (of_char c :: nat) \<and> (of_char c :: nat) \<le> 57)"

definition max_str_digits :: nat where
  "max_str_digits = 4300"

fun scan_digits :: "nat \<Rightarrow> nat \<Rightarrow> bool \<Rightarrow> string \<Rightarrow> nat option" where
  "scan_digits acc digits after_digit [] =
     (if after_digit \<and> digits \<le> max_str_digits then Some acc else None)"
| "scan_digits acc digits after_digit (c # cs) =
     (if is_digit c then scan_digits (10 * acc + (of_char c - 48)) (digits + 1) True cs
      else if c = CHR ''_'' \<and> after_digit then scan_digits acc digits False cs
      else None)"

definition py_int :: "string \<Rightarrow> int option" where
  "py_int s =
     (case rev (dropWhile is_int_space (rev (dropWhile is_int_space s))) of
        [] \<Rightarrow> None
      | c # cs \<Rightarrow>
          if c = CHR ''-'' then map_option (\<lambda>n. - int n) (scan_digits 0 0 False cs)
          else if c = CHR ''+'' then map_option int (scan_digits 0 0 False cs)
          else map_option int (scan_digits 0 0 False (c # cs)))"

text \<open>
  \<^verbatim>\<open>list(map(int, row))\<close>: the fields are converted from left to right and the first one that
  \<^verbatim>\<open>int\<close> rejects raises. The text of that \<^verbatim>\<open>ValueError\<close> is made by the Python runtime from the
  field; it is the parameter \<open>literal_msg\<close> here.
\<close>

fun int_row :: "(string \<Rightarrow> string) \<Rightarrow> string list \<Rightarrow> py_exception + int list" where
  "int_row literal_msg [] = Inr []"
| "int_row literal_msg (f # fs) =
     (case py_int f of
        None \<Rightarrow> Inl (Exc ValueError (literal_msg f))
      | Some n \<Rightarrow>
          (case int_row literal_msg fs of Inl e \<Rightarrow> Inl e | Inr ns \<Rightarrow> Inr (n # ns)))"

text \<open>
  \<^verbatim>\<open>[list(map(int, row)) for row in rows if row]\<close>, the expression of source lines 24 and 94:
  empty rows are passed over, the others converted in order.
\<close>

fun convert_rows :: "(string \<Rightarrow> string) \<Rightarrow> string list list \<Rightarrow> py_exception + grid" where
  "convert_rows literal_msg [] = Inr []"
| "convert_rows literal_msg (row # rows) =
     (if row \<noteq> []
      then (case int_row literal_msg row of
              Inl e \<Rightarrow> Inl e
            | Inr ns \<Rightarrow>
                (case convert_rows literal_msg rows of Inl e \<Rightarrow> Inl e | Inr m \<Rightarrow> Inr (ns # m)))
      else convert_rows literal_msg rows)"

text \<open>
  The parsing step of \<^verbatim>\<open>start_matrix_data\<close> (source lines 22 to 25), from the response text to
  the grid.
\<close>

definition start_matrix_data_parse :: "(string \<Rightarrow> string) \<Rightarrow> string \<Rightarrow> py_exception + grid" where
  "start_matrix_data_parse literal_msg response_text =
     (let matrix_text = py_strip response_text;
          rows = map (\<lambda>row. slice_1_m1 (py_split CHR ''|'' (py_strip row)))
                   (filter (\<lambda>row. py_strip row \<noteq> [])
                      (py_split (CHR 0x0A) (py_strip matrix_text)))
      in convert_rows literal_msg rows)"

text \<open>
  The parsing step inside \<^verbatim>\<open>get_matrix\<close>: \<open>field_rows\<close> is the value of \<^verbatim>\<open>rows\<close> (source line 93),
  \<open>get_matrix_parse\<close> the value of \<^verbatim>\<open>matrix\<close> (line 94).
\<close>

definition field_rows :: "string \<Rightarrow> string list list" where
  "field_rows txt =
     map (\<lambda>row. slice_1_m1 (py_split CHR ''|'' (py_strip row)))
       (filter (\<lambda>row. py_strip row \<noteq> []) (py_split (CHR 0x0A) (py_strip txt)))"

definition get_matrix_parse :: "(string \<Rightarrow> string) \<Rightarrow> string \<Rightarrow> py_exception + grid" where
  "get_matrix_parse literal_msg txt = convert_rows literal_msg (field_rows txt)"

section \<open>\<^verbatim>\<open>get_matrix\<close>: fetch, parse, traverse, and one kind of error\<close>

text \<open>
  The world outside the function is what a call can change: the requests that went out on
  the wire, in order, and the records written to the log. A response has a status and a body
  whose reading may itself raise.
\<close>

datatype log_level = DEBUG | INFO | WARNING | ERROR | CRITICAL

record http_response =
  status :: int
  body :: "py_exception + string"

record world =
  requests :: "string list"
  log_records :: "(log_level \<times> string) list"

text \<open>
  \<^verbatim>\<open>session.get(url)\<close> is aiohttp's, not this repository's, and the source calls it with the
  default arguments. What one call puts on the wire is the library's business: it follows
  redirects, and it may send an idempotent request a second time after the connection
  dropped. So the call is a parameter of the model: any function from the URL and the world
  to an exception or a response, and to the world with the requests it sent added.
\<close>

type_synonym http_client = "string \<Rightarrow> world \<Rightarrow> (py_exception + http_response) \<times> world"

text \<open>
  Two clients to run the model on. \<open>get_once\<close> sends one request and returns what the
  given server answers. \<open>get_resending\<close> is a client whose first send meets a dropped
  connection, which sends the request once more, and which then raises the disconnect.
\<close>

definition get_once :: "(string \<Rightarrow> py_exception + http_response) \<Rightarrow> http_client" where
  "get_once server url w = (server url, w\<lparr>requests := requests w @ [url]\<rparr>)"

definition get_resending :: http_client where
  "get_resending url w =
     (Inl (Exc ServerDisconnectedError ''Server disconnected''),
      w\<lparr>requests := requests w @ [url, url]\<rparr>)"

definition logger_error :: "string \<Rightarrow> world \<Rightarrow> world" where
  "logger_error msg w = w\<lparr>log_records := log_records w @ [(ERROR, msg)]\<rparr>"

text \<open>\<^verbatim>\<open>str(n)\<close> for an integer, as an f-string renders the status code.\<close>

fun digits10 :: "nat \<Rightarrow> string" where
  "digits10 n =
     (if n < 10 then [char_of (48 + n)]
      else digits10 (n div 10) @ [char_of (48 + n mod 10)])"

declare digits10.simps [simp del]

definition py_str_int :: "int \<Rightarrow> string" where
  "py_str_int i = (if i < 0 then CHR ''-'' # digits10 (nat (- i)) else digits10 (nat i))"

text \<open>
  \<^verbatim>\<open>isinstance(e, handler_class)\<close> for the classes named in the handlers. In aiohttp,
  \<^verbatim>\<open>ServerDisconnectedError\<close> and \<^verbatim>\<open>ServerTimeoutError\<close> derive from \<^verbatim>\<open>ClientConnectionError\<close>
  (through \<^verbatim>\<open>ServerConnectionError\<close>), and \<^verbatim>\<open>ServerTimeoutError\<close> also from
  \<^verbatim>\<open>asyncio.TimeoutError\<close>.
\<close>

definition isinstance :: "py_exception \<Rightarrow> exc_class \<Rightarrow> bool" where
  "isinstance e handler_class =
     (exc_cls e = handler_class
      \<or> (handler_class = ClientConnectionError
          \<and> (exc_cls e = ServerTimeoutError \<or> exc_cls e = ServerDisconnectedError))
      \<or> (handler_class = TimeoutError \<and> exc_cls e = ServerTimeoutError))"

text \<open>
  The block under \<^verbatim>\<open>try\<close> (source lines 86 to 96): the one call of \<^verbatim>\<open>session.get\<close>, the two status checks
  that raise \<^verbatim>\<open>ValueError\<close> inside the block, the reading of the body, the parsing and the
  traversal. Its value is the exception that leaves the block, or the result.
\<close>

definition try_block ::
  "(string \<Rightarrow> string) \<Rightarrow> http_client \<Rightarrow> string \<Rightarrow> world \<Rightarrow> (py_exception + int list) \<times> world"
  where
  "try_block literal_msg session_get url w =
     (case session_get url w of
        (Inl e, w1) \<Rightarrow> (Inl e, w1)
      | (Inr response, w1) \<Rightarrow>
          if status response \<ge> 500
          then (Inl (Exc ValueError
                  (''Server error occurred while fetching matrix from '' @ url
                   @ ''. Status code: '' @ py_str_int (status response))), w1)
          else if status response \<noteq> 200
          then (Inl (Exc ValueError
                  (''Failed to fetch matrix from '' @ url
                   @ ''. Status code: '' @ py_str_int (status response))), w1)
          else (case body response of
                  Inl e \<Rightarrow> (Inl e, w1)
                | Inr txt \<Rightarrow>
                    (case get_matrix_parse literal_msg txt of
                       Inl e \<Rightarrow> (Inl e, w1)
                     | Inr matrix \<Rightarrow> (counterclockwise_traversal matrix, w1))))"

text \<open>
  The handlers, in the order of the source (lines 97 to 114): the first whose class the
  exception is an instance of logs its message at error level and raises \<^verbatim>\<open>ValueError\<close> with
  the same message. The last one, \<^verbatim>\<open>except Exception\<close>, takes every other exception.
\<close>

definition handle :: "string \<Rightarrow> py_exception \<Rightarrow> world \<Rightarrow> (py_exception + int list) \<times> world" where
  "handle url e w =
     (let msg =
        (if isinstance e ClientConnectionError
         then ''Failed to connect to the server at '' @ url @ ''. Error: '' @ exc_str e
         else if isinstance e ClientResponseError
         then ''Received unexpected response from the server at '' @ url
              @ ''. Error: '' @ exc_str e
         else if isinstance e ServerTimeoutError
         then ''Server at '' @ url @ '' timed out. Error: '' @ exc_str e
         else if isinstance e ServerDisconnectedError
         then ''Connection to server at '' @ url
              @ '' was unexpectedly disconnected. Error: '' @ exc_str e
         else if isinstance e TimeoutError
         then ''Connection timeout while fetching matrix from '' @ url
         else ''An error occurred while fetching matrix from '' @ url
              @ ''. Error: '' @ exc_str e)
      in (Inl (Exc ValueError msg), logger_error msg w))"

definition get_matrix ::
  "(string \<Rightarrow> string) \<Rightarrow> http_client \<Rightarrow> string \<Rightarrow> world \<Rightarrow> (py_exception + int list) \<times> world"
  where
  "get_matrix literal_msg session_get url w =
     (case try_block literal_msg session_get url w of
        (Inr result, w1) \<Rightarrow> (Inr result, w1)
      | (Inl e, w1) \<Rightarrow> handle url e w1)"

section \<open>The traversal as the specification words it\<close>

text \<open>
  A grid is rectangular when every row is as long as row 0.
\<close>

definition rectangular :: "grid \<Rightarrow> bool" where
  "rectangular matrix = list_all (\<lambda>row. length row = length (matrix ! 0)) matrix"

text \<open>The cell in row \<open>r\<close> and column \<open>c\<close>, for indices inside the grid.\<close>

definition cell_at :: "grid \<Rightarrow> int \<Rightarrow> int \<Rightarrow> int" where
  "cell_at matrix r c = matrix ! nat r ! nat c"

text \<open>
  The ring peeling of the specification, step by step and in its words: walk column
  \<open>colStart\<close> from \<open>rowStart\<close> to \<open>rowEnd\<close> and increment \<open>colStart\<close>; walk row \<open>rowEnd\<close>
  from the updated \<open>colStart\<close> to \<open>colEnd\<close> and decrement \<open>rowEnd\<close>; if
  \<open>colStart \<le> colEnd\<close>, walk column \<open>colEnd\<close> from \<open>rowEnd\<close> down to \<open>rowStart\<close> and
  decrement \<open>colEnd\<close>; if \<open>rowStart \<le> rowEnd\<close>, walk row \<open>rowStart\<close> from \<open>colEnd\<close> down to
  \<open>colStart\<close> and increment \<open>rowStart\<close>; repeat while \<open>rowStart \<le> rowEnd\<close> and
  \<open>colStart \<le> colEnd\<close>. It is written over any cell function, without reads that can fail.
\<close>

function ring_peel :: "(int \<Rightarrow> int \<Rightarrow> 'a) \<Rightarrow> int \<Rightarrow> int \<Rightarrow> int \<Rightarrow> int \<Rightarrow> 'a list" where
  "ring_peel cell rowStart rowEnd colStart colEnd =
     (if rowStart \<le> rowEnd \<and> colStart \<le> colEnd
      then
        (let up = map (\<lambda>r. cell r colStart) [rowStart..rowEnd];
             colStart2 = colStart + 1;
             bottom = map (\<lambda>c. cell rowEnd c) [colStart2..colEnd];
             rowEnd2 = rowEnd - 1;
             down = (if colStart2 \<le> colEnd
                     then map (\<lambda>r. cell r colEnd) (rev [rowStart..rowEnd2]) else []);
             colEnd2 = (if colStart2 \<le> colEnd then colEnd - 1 else colEnd);
             top = (if rowStart \<le> rowEnd2
                    then map (\<lambda>c. cell rowStart c) (rev [colStart2..colEnd2]) else []);
             rowStart2 = (if rowStart \<le> rowEnd2 then rowStart + 1 else rowStart)
         in up @ bottom @ down @ top @ ring_peel cell rowStart2 rowEnd2 colStart2 colEnd2)
      else [])"
  by pat_completeness auto
termination
  by (relation "measure (\<lambda>(cell, rowStart, rowEnd, colStart, colEnd).
                           nat (colEnd - colStart + 1))") auto

definition spec_traversal :: "grid \<Rightarrow> int list" where
  "spec_traversal matrix =
     ring_peel (cell_at matrix) 0 (int (length matrix) - 1) 0 (int (length (matrix ! 0)) - 1)"

text \<open>The cells of the block of rows \<open>rs..re\<close> and columns \<open>cs..ce\<close>, as a multiset.\<close>

definition block :: "(int \<Rightarrow> int \<Rightarrow> 'a) \<Rightarrow> int \<Rightarrow> int \<Rightarrow> int \<Rightarrow> int \<Rightarrow> 'a multiset" where
  "block cell rs re cs ce = mset (concat (map (\<lambda>r. map (cell r) [cs..ce]) [rs..re]))"

section \<open>Properties of the traversal\<close>

declare ring_peel.simps [simp del] traverse_loop.simps [simp del]

subsection \<open>Peeling a ring off a block keeps its cells\<close>

lemma mset_first_col:
  "mset (concat (map (\<lambda>r. g r # h r) rows)) =
     mset (map g rows) + mset (concat (map h rows))"
  by (induction rows) auto

lemma mset_last_col:
  "mset (concat (map (\<lambda>r. h r @ [g r]) rows)) =
     mset (map g rows) + mset (concat (map h rows))"
  by (induction rows) auto

lemma block_first_col:
  "cs \<le> ce \<Longrightarrow> block f rs re cs ce = mset (map (\<lambda>r. f r cs) [rs..re]) + block f rs re (cs + 1) ce"
  by (simp add: block_def upto_rec1 [of cs ce] mset_first_col)

lemma block_last_col:
  "cs \<le> ce \<Longrightarrow> block f rs re cs ce = mset (map (\<lambda>r. f r ce) [rs..re]) + block f rs re cs (ce - 1)"
  by (simp add: block_def upto_rec2 [of cs ce] mset_last_col)

lemma block_first_row:
  "rs \<le> re \<Longrightarrow> block f rs re cs ce = mset (map (f rs) [cs..ce]) + block f (rs + 1) re cs ce"
  by (simp add: block_def upto_rec1 [of rs re])

lemma block_last_row:
  "rs \<le> re \<Longrightarrow> block f rs re cs ce = mset (map (f re) [cs..ce]) + block f rs (re - 1) cs ce"
  by (simp add: block_def upto_rec2 [of rs re])

lemma block_empty: "re < rs \<or> ce < cs \<Longrightarrow> block f rs re cs ce = {#}"
  by (auto simp: block_def)

lemma mset_ring_peel: "mset (ring_peel f rs re cs ce) = block f rs re cs ce"
proof (induction f rs re cs ce rule: ring_peel.induct)
  case (1 f rs re cs ce)
  show ?case
  proof (cases "rs \<le> re \<and> cs \<le> ce")
    case False
    then have e: "re < rs \<or> ce < cs" by auto
    from False have "ring_peel f rs re cs ce = []"
      by (subst ring_peel.simps) (simp only: if_False)
    with e show ?thesis by (simp only: block_empty mset.simps)
  next
    case True
    define cs2 where "cs2 = cs + 1"
    define re2 where "re2 = re - 1"
    define ce2 where "ce2 = (if cs2 \<le> ce then ce - 1 else ce)"
    define rs2 where "rs2 = (if rs \<le> re2 then rs + 1 else rs)"
    have IH: "mset (ring_peel f rs2 re2 cs2 ce2) = block f rs2 re2 cs2 ce2"
      using "1.IH" [OF True refl refl refl refl refl refl refl refl] 
      by (simp add: cs2_def re2_def ce2_def rs2_def)
    have a: "block f rs re cs ce = mset (map (\<lambda>r. f r cs) [rs..re]) + block f rs re cs2 ce"
      using True by (simp add: block_first_col cs2_def)
    have b: "block f rs re cs2 ce = mset (map (f re) [cs2..ce]) + block f rs re2 cs2 ce"
      using True by (simp add: block_last_row re2_def)
    have c: "block f rs re2 cs2 ce =
               (if cs2 \<le> ce then mset (map (\<lambda>r. f r ce) [rs..re2]) else {#}) + block f rs re2 cs2 ce2"
      by (simp add: ce2_def block_last_col)
    have d: "block f rs re2 cs2 ce2 =
               (if rs \<le> re2 then mset (map (f rs) [cs2..ce2]) else {#}) + block f rs2 re2 cs2 ce2"
      by (simp add: rs2_def block_first_row)
    have "ring_peel f rs re cs ce =
            map (\<lambda>r. f r cs) [rs..re] @ map (f re) [cs2..ce] @
            (if cs2 \<le> ce then map (\<lambda>r. f r ce) (rev [rs..re2]) else []) @
            (if rs \<le> re2 then map (f rs) (rev [cs2..ce2]) else []) @
            ring_peel f rs2 re2 cs2 ce2"
      using True by (simp add: ring_peel.simps [of f rs re cs ce] Let_def cs2_def re2_def ce2_def rs2_def)
    then show ?thesis
      by (simp add: IH a b c d)
  qed
qed

lemma walk_column_ok:
  "(\<And>r. r \<in> set rows \<Longrightarrow> rd m r c = Inr (cell_at m r c)) \<Longrightarrow>
   walk_column rd m rows c acc = Inr (acc @ map (\<lambda>r. cell_at m r c) rows)"
  by (induction rows arbitrary: acc) simp_all

lemma walk_row_ok:
  "(\<And>c. c \<in> set cols \<Longrightarrow> rd m r c = Inr (cell_at m r c)) \<Longrightarrow>
   walk_row rd m r cols acc = Inr (acc @ map (cell_at m r) cols)"
  by (induction cols arbitrary: acc) simp_all

lemma loop_body_ok:
  assumes rd: "\<And>r c. 0 \<le> r \<Longrightarrow> r < R \<Longrightarrow> 0 \<le> c \<Longrightarrow> c < C \<Longrightarrow> rd m r c = Inr (cell_at m r c)"
    and bounds: "0 \<le> rs" "re < R" "0 \<le> cs" "ce < C"
    and guard: "rs \<le> re" "cs \<le> ce"
  shows "loop_body rd m rs re cs ce acc =
           Inr (if rs \<le> re - 1 then rs + 1 else rs, re - 1, cs + 1,
                if cs + 1 \<le> ce then ce - 1 else ce,
                acc @ map (\<lambda>r. cell_at m r cs) [rs..re] @ map (cell_at m re) [cs + 1..ce] @
                (if cs + 1 \<le> ce then map (\<lambda>r. cell_at m r ce) (rev [rs..re - 1]) else []) @
                (if rs \<le> re - 1
                 then map (cell_at m rs) (rev [cs + 1..if cs + 1 \<le> ce then ce - 1 else ce])
                 else []))"
proof -
  have up: "walk_column rd m [rs..re] cs acc = Inr (acc @ map (\<lambda>r. cell_at m r cs) [rs..re])" for acc
    using bounds guard by (intro walk_column_ok rd) auto
  have bottom: "walk_row rd m re [cs + 1..ce] acc = Inr (acc @ map (cell_at m re) [cs + 1..ce])" for acc
    using bounds guard by (intro walk_row_ok rd) auto
  have down: "walk_column rd m (rev [rs..re - 1]) ce acc =
                Inr (acc @ map (\<lambda>r. cell_at m r ce) (rev [rs..re - 1]))" for acc
    using bounds guard by (intro walk_column_ok rd) auto
  have top: "walk_row rd m rs (rev [cs + 1..ce2]) acc =
               Inr (acc @ map (cell_at m rs) (rev [cs + 1..ce2]))" if "ce2 \<le> ce" for acc ce2
    using bounds guard that by (intro walk_row_ok rd) auto
  show ?thesis
    by (simp add: loop_body_def Let_def py_range_def py_range_down_def up bottom down top)
qed

lemma traverse_loop_ok:
  assumes rd: "\<And>r c. 0 \<le> r \<Longrightarrow> r < R \<Longrightarrow> 0 \<le> c \<Longrightarrow> c < C \<Longrightarrow> rd m r c = Inr (cell_at m r c)"
  shows "0 \<le> rs \<Longrightarrow> re < R \<Longrightarrow> 0 \<le> cs \<Longrightarrow> ce < C \<Longrightarrow>
         traverse_loop rd m rs re cs ce acc = Inr (acc @ ring_peel (cell_at m) rs re cs ce)"
proof (induction "cell_at m" rs re cs ce arbitrary: acc rule: ring_peel.induct)
  case (1 rs re cs ce)
  show ?case
  proof (cases "rs \<le> re \<and> cs \<le> ce")
    case False
    then show ?thesis
      by (subst traverse_loop.simps, subst ring_peel.simps) (simp only: if_False append_Nil2)
  next
    case True
    define cs2 where "cs2 = cs + 1"
    define re2 where "re2 = re - 1"
    define ce2 where "ce2 = (if cs2 \<le> ce then ce - 1 else ce)"
    define rs2 where "rs2 = (if rs \<le> re2 then rs + 1 else rs)"
    define ring where "ring = map (\<lambda>r. cell_at m r cs) [rs..re] @ map (cell_at m re) [cs2..ce] @
            (if cs2 \<le> ce then map (\<lambda>r. cell_at m r ce) (rev [rs..re2]) else []) @
            (if rs \<le> re2 then map (cell_at m rs) (rev [cs2..ce2]) else [])"
    have nb: "0 \<le> rs2" "re2 < R" "0 \<le> cs2" "ce2 < C"
      using "1.prems" by (auto simp: cs2_def re2_def ce2_def rs2_def)
    have IH: "traverse_loop rd m rs2 re2 cs2 ce2 acc2 =
                Inr (acc2 @ ring_peel (cell_at m) rs2 re2 cs2 ce2)" for acc2
      using "1.hyps" [OF True refl refl refl refl refl refl refl refl, of acc2] nb
      by (simp add: cs2_def re2_def ce2_def rs2_def)
    have body: "loop_body rd m rs re cs ce acc = Inr (rs2, re2, cs2, ce2, acc @ ring)"
      using loop_body_ok [of R C rd m rs re cs ce acc, OF rd] "1.prems" True
      by (simp add: cs2_def re2_def ce2_def rs2_def ring_def)
    have peel: "ring_peel (cell_at m) rs re cs ce = ring @ ring_peel (cell_at m) rs2 re2 cs2 ce2"
      using True
      by (simp add: ring_peel.simps [of "cell_at m" rs re cs ce] Let_def cs2_def re2_def ce2_def
            rs2_def ring_def)
    have "traverse_loop rd m rs re cs ce acc = traverse_loop rd m rs2 re2 cs2 ce2 (acc @ ring)"
      using True by (subst traverse_loop.simps [of rd m rs re cs ce acc]) (simp add: body)
    then show ?thesis
      by (simp add: IH peel)
  qed
qed

lemma map_nth_upto: "map (\<lambda>i. xs ! nat i) [0..int (length xs) - 1] = xs"
  by (rule nth_equalityI) simp_all

lemma map_nth_upto': "n = length xs \<Longrightarrow> map (\<lambda>i. f (xs ! nat i)) [0..int n - 1] = map f xs"
  using map_nth_upto [of xs] by (metis (no_types, lifting) map_map o_def map_eq_conv)

lemma rectangular_row: "rectangular m \<Longrightarrow> 0 \<le> r \<Longrightarrow> r < int (length m) \<Longrightarrow> length (m ! nat r) = length (m ! 0)"
  by (simp add: rectangular_def list_all_length)

lemma py_cell_ok:
  "rectangular m \<Longrightarrow> 0 \<le> r \<Longrightarrow> r < int (length m) \<Longrightarrow> 0 \<le> c \<Longrightarrow> c < int (length (m ! 0)) \<Longrightarrow>
   py_cell m r c = Inr (cell_at m r c)"
  by (simp add: py_cell_def py_getitem_def cell_at_def rectangular_row)

lemma strict_cell_ok:
  "rectangular m \<Longrightarrow> 0 \<le> r \<Longrightarrow> r < int (length m) \<Longrightarrow> 0 \<le> c \<Longrightarrow> c < int (length (m ! 0)) \<Longrightarrow>
   strict_cell m r c = Inr (cell_at m r c)"
  by (simp add: strict_cell_def strict_getitem_def cell_at_def rectangular_row)

lemma spec_traversal_Nil: "spec_traversal [] = []"
  by (simp add: spec_traversal_def ring_peel.simps [of _ 0 "- 1"])

lemma traversal_with_ok:
  assumes "\<And>r c. 0 \<le> r \<Longrightarrow> r < int (length m) \<Longrightarrow> 0 \<le> c \<Longrightarrow> c < int (length (m ! 0)) \<Longrightarrow>
             rd m r c = Inr (cell_at m r c)"
  shows "traversal_with rd m = Inr (spec_traversal m)"
proof (cases "m = []")
  case True
  then show ?thesis by (simp add: traversal_with_def spec_traversal_Nil)
next
  case False
  have "traverse_loop rd m 0 (int (length m) - 1) 0 (int (length (m ! 0)) - 1) [] =
          Inr ([] @ ring_peel (cell_at m) 0 (int (length m) - 1) 0 (int (length (m ! 0)) - 1))"
    by (rule traverse_loop_ok [where R = "int (length m)" and C = "int (length (m ! 0))"])
       (simp_all add: assms)
  with False show ?thesis by (simp add: traversal_with_def spec_traversal_def)
qed

lemma block_whole:
  assumes "rectangular m"
  shows "block (cell_at m) 0 (int (length m) - 1) 0 (int (length (m ! 0)) - 1) = mset (concat m)"
proof -
  have "map (\<lambda>r. map (cell_at m r) [0..int (length (m ! 0)) - 1]) [0..int (length m) - 1] =
        map (\<lambda>r. m ! nat r) [0..int (length m) - 1]"
  proof (rule map_cong [OF refl])
    fix r assume "r \<in> set [0..int (length m) - 1]"
    then have r: "0 \<le> r" "r < int (length m)" by auto
    have "map (\<lambda>c. (m ! nat r) ! nat c) [0..int (length (m ! nat r)) - 1] = m ! nat r"
      by (rule map_nth_upto)
    then show "map (cell_at m r) [0..int (length (m ! 0)) - 1] = m ! nat r"
      using rectangular_row [OF assms r] by (simp add: cell_at_def [abs_def])
  qed
  also have "\<dots> = m" by (rule map_nth_upto)
  finally show ?thesis by (simp add: block_def)
qed

lemma length_concat_rectangular:
  "rectangular m \<Longrightarrow> length (concat m) = length m * length (m ! 0)"
proof -
  assume "rectangular m"
  then have "\<forall>row \<in> set m. length row = length (m ! 0)"
    by (simp add: rectangular_def list_all_iff)
  then have "map length m = replicate (length m) (length (m ! 0))"
    by (simp add: map_replicate_const [symmetric] cong: map_cong)
  then show ?thesis by (simp add: length_concat sum_list_replicate)
qed

lemma spec_traversal_first_column:
  assumes "m \<noteq> []" "m ! 0 \<noteq> []"
  shows "take (length m) (spec_traversal m) = map (\<lambda>row. row ! 0) m"
proof -
  have up: "map (\<lambda>r. cell_at m r 0) [0..int (length m) - 1] = map (\<lambda>row. row ! 0) m"
    unfolding cell_at_def by (simp add: map_nth_upto' [of _ _ "\<lambda>row. row ! 0"])
  have "spec_traversal m =
          map (\<lambda>r. cell_at m r 0) [0..int (length m) - 1] @
          drop (length m) (spec_traversal m)"
    unfolding spec_traversal_def using assms
    by (subst ring_peel.simps, subst (2) ring_peel.simps) (simp add: Let_def)
  then have "take (length m) (spec_traversal m) =
               take (length m) (map (\<lambda>r. cell_at m r 0) [0..int (length m) - 1] @
                 drop (length m) (spec_traversal m))"
    by simp
  then show ?thesis by (simp add: up)
qed

subsection \<open>The claims about the traversal\<close>

text \<open>
  C8: for the empty grid (zero rows) \<^verbatim>\<open>counterclockwise_traversal\<close> returns the empty list at
  once and raises nothing.
\<close>

theorem traversal_empty_grid: "counterclockwise_traversal [] = Inr []"
  by (simp add: counterclockwise_traversal_def traversal_with_def)

text \<open>
  C1: for every non-empty rectangular grid with non-empty rows the traversal returns a list
  of length rows times columns that is a permutation of the cells of the grid: every value
  occurs in it as often as in the grid.
\<close>

theorem traversal_is_permutation:
  assumes "matrix \<noteq> []" and "rectangular matrix" and "matrix ! 0 \<noteq> []"
  shows "\<exists>result. counterclockwise_traversal matrix = Inr result
           \<and> length result = length matrix * length (matrix ! 0)
           \<and> mset result = mset (concat matrix)
           \<and> (\<forall>v. count_list result v = count_list (concat matrix) v)"
proof -
  have run: "counterclockwise_traversal matrix = Inr (spec_traversal matrix)"
    unfolding counterclockwise_traversal_def
    by (rule traversal_with_ok) (rule py_cell_ok [OF assms(2)])
  have perm: "mset (spec_traversal matrix) = mset (concat matrix)"
    by (simp add: spec_traversal_def mset_ring_peel block_whole [OF assms(2)])
  have "length (spec_traversal matrix) = length (concat matrix)"
    using perm by (metis size_mset)
  then have len: "length (spec_traversal matrix) = length matrix * length (matrix ! 0)"
    by (simp add: length_concat_rectangular [OF assms(2)])
  have "count_list (spec_traversal matrix) v = count_list (concat matrix) v" for v
    using perm by (metis count_mset)
  with run perm len show ?thesis by blast
qed

theorem traversal_is_permutation_witness:
  "[[1, 2, 3], [4, 5, 6 :: int]] \<noteq> [] \<and> rectangular [[1, 2, 3], [4, 5, 6]]
   \<and> [[1, 2, 3], [4, 5, 6 :: int]] ! 0 \<noteq> []
   \<and> (\<exists>result. counterclockwise_traversal [[1, 2, 3], [4, 5, 6]] = Inr result
         \<and> length result = 6 \<and> mset result = mset [1, 2, 3, 4, 5, 6])"
proof -
  have h: "[[1, 2, 3], [4, 5, 6 :: int]] \<noteq> []" "rectangular [[1, 2, 3], [4, 5, 6]]"
    "[[1, 2, 3], [4, 5, 6 :: int]] ! 0 \<noteq> []"
    by (simp_all add: rectangular_def)
  show ?thesis
    using h traversal_is_permutation [OF h] by auto
qed

text \<open>
  C3: for every non-empty rectangular grid the traversal emits the cells in the order of the
  ring peeling of the specification (\<^const>\<open>spec_traversal\<close>): column \<open>colStart\<close> downwards,
  row \<open>rowEnd\<close> rightwards, column \<open>colEnd\<close> upwards if \<open>colStart \<le> colEnd\<close>, row \<open>rowStart\<close>
  leftwards if \<open>rowStart \<le> rowEnd\<close>, repeated while the bounds have not crossed. In
  particular the output begins with the whole first column, top to bottom.
\<close>

theorem traversal_follows_ring_peeling:
  assumes "matrix \<noteq> []" and "rectangular matrix" and "matrix ! 0 \<noteq> []"
  shows "counterclockwise_traversal matrix = Inr (spec_traversal matrix)
         \<and> take (length matrix) (spec_traversal matrix) = map (\<lambda>row. row ! 0) matrix"
proof
  show "counterclockwise_traversal matrix = Inr (spec_traversal matrix)"
    unfolding counterclockwise_traversal_def
    by (rule traversal_with_ok) (rule py_cell_ok [OF assms(2)])
  show "take (length matrix) (spec_traversal matrix) = map (\<lambda>row. row ! 0) matrix"
    by (rule spec_traversal_first_column [OF assms(1) assms(3)])
qed

theorem traversal_follows_ring_peeling_witness:
  "[[1, 2], [3, 4], [5, 6 :: int]] \<noteq> [] \<and> rectangular [[1, 2], [3, 4], [5, 6]]
   \<and> [[1, 2], [3, 4], [5, 6 :: int]] ! 0 \<noteq> []
   \<and> counterclockwise_traversal [[1, 2], [3, 4], [5, 6]]
       = Inr (spec_traversal [[1, 2], [3, 4], [5, 6]])
   \<and> take 3 (spec_traversal [[1, 2], [3, 4], [5, 6]]) = [1, 3, 5]"
proof -
  have h: "[[1, 2], [3, 4], [5, 6 :: int]] \<noteq> []" "rectangular [[1, 2], [3, 4], [5, 6]]"
    "[[1, 2], [3, 4], [5, 6 :: int]] ! 0 \<noteq> []"
    by (simp_all add: rectangular_def)
  show ?thesis
    using h traversal_follows_ring_peeling [OF h] by (simp add: numeral_3_eq_3)
qed

text \<open>
  C4: for every rectangular grid the traversal terminates (the loop is a total function,
  by the termination proof above) and returns a result, not an exception; and it returns
  the same result when every read outside \<^verbatim>\<open>0 .. len - 1\<close> is made to fail, so every index it
  uses is inside the grid.
\<close>

theorem traversal_total_in_bounds:
  assumes "rectangular matrix"
  shows "\<exists>result. counterclockwise_traversal matrix = Inr result
           \<and> traversal_with strict_cell matrix = Inr result"
proof -
  have "counterclockwise_traversal matrix = Inr (spec_traversal matrix)"
    unfolding counterclockwise_traversal_def
    by (rule traversal_with_ok) (rule py_cell_ok [OF assms])
  moreover have "traversal_with strict_cell matrix = Inr (spec_traversal matrix)"
    by (rule traversal_with_ok) (rule strict_cell_ok [OF assms])
  ultimately show ?thesis by blast
qed

theorem traversal_total_in_bounds_witness:
  "rectangular [[1, 2, 3], [4, 5, 6], [7, 8, 9]]
   \<and> (\<exists>result. counterclockwise_traversal [[1, 2, 3], [4, 5, 6], [7, 8, 9]] = Inr result
         \<and> traversal_with strict_cell [[1, 2, 3], [4, 5, 6], [7, 8, 9]] = Inr result)"
proof -
  have h: "rectangular [[1, 2, 3], [4, 5, 6], [7, 8, 9]]"
    by (simp add: rectangular_def)
  show ?thesis
    using h traversal_total_in_bounds [OF h] by simp
qed

section \<open>Properties of the parsing steps\<close>

lemma dropWhile_rev_dropWhile:
  "dropWhile P (rev (dropWhile P (rev (dropWhile P s)))) = rev (dropWhile P (rev (dropWhile P s)))"
proof (cases "dropWhile P s")
  case Nil
  show ?thesis unfolding Nil by simp
next
  case (Cons a u)
  then have a: "\<not> P a" by (metis hd_dropWhile list.sel(1) list.distinct(1))
  have "rev (dropWhile P (rev (a # u))) = a # rev (dropWhile P (rev u))"
    using a by (simp add: dropWhile_append3)
  then show ?thesis using a Cons by auto
qed

lemma py_strip_idem: "py_strip (py_strip s) = py_strip s"
  unfolding py_strip_def by (simp add: dropWhile_rev_dropWhile)

text \<open>
  C9: for every text, the parsing step of \<^verbatim>\<open>start_matrix_data\<close> and the one written inline in
  \<^verbatim>\<open>get_matrix\<close> produce the same grid, or raise the same error. The first strips the text
  twice, the second once, and stripping twice is stripping once.
\<close>

theorem parsing_steps_agree:
  "start_matrix_data_parse literal_msg txt = get_matrix_parse literal_msg txt"
  by (simp add: start_matrix_data_parse_def get_matrix_parse_def field_rows_def py_strip_idem)

theorem parsing_steps_agree_witness:
  "start_matrix_data_parse (\<lambda>f. f) ('' '' @ [CHR 0x0A] @ ''|1|2|'' @ [CHR 0x0A] @ ''|3|4|'' @ [CHR 0x0A])
     = get_matrix_parse (\<lambda>f. f) ('' '' @ [CHR 0x0A] @ ''|1|2|'' @ [CHR 0x0A] @ ''|3|4|'' @ [CHR 0x0A])"
  using parsing_steps_agree [of "\<lambda>f. f" "'' '' @ [CHR 0x0A] @ ''|1|2|'' @ [CHR 0x0A] @ ''|3|4|'' @ [CHR 0x0A]"]
  by simp

text \<open>
  C2: the four-line reference document parses, in both parsing steps, to the grid of the
  specification, and the traversal of that grid is the sequence of the specification.
\<close>

theorem reference_scenario:
  "start_matrix_data_parse literal_msg
       (''|10|20|30|40|'' @ [CHR 0x0A] @ ''|50|60|70|80|'' @ [CHR 0x0A]
        @ ''|90|100|110|120|'' @ [CHR 0x0A] @ ''|130|140|150|160|'')
     = Inr [[10, 20, 30, 40], [50, 60, 70, 80], [90, 100, 110, 120], [130, 140, 150, 160]]
   \<and> get_matrix_parse literal_msg
       (''|10|20|30|40|'' @ [CHR 0x0A] @ ''|50|60|70|80|'' @ [CHR 0x0A]
        @ ''|90|100|110|120|'' @ [CHR 0x0A] @ ''|130|140|150|160|'')
     = Inr [[10, 20, 30, 40], [50, 60, 70, 80], [90, 100, 110, 120], [130, 140, 150, 160]]
   \<and> counterclockwise_traversal
       [[10, 20, 30, 40], [50, 60, 70, 80], [90, 100, 110, 120], [130, 140, 150, 160]]
     = Inr [10, 50, 90, 130, 140, 150, 160, 120, 80, 40, 30, 20, 60, 100, 110, 70]"
  by code_simp

text \<open>
  C10: the first and the last field of every retained line are dropped whatever they hold:
  the rows are the inner slices of the split lines. So the line \<^verbatim>\<open>1|2|3\<close> gives the row
  \<open>[2]\<close>, losing 1 and 3 without an error, and the line \<^verbatim>\<open>abc\<close>, whose split has one field,
  gives no row and no error although it is not a number.
\<close>

theorem bookend_fields_dropped:
  "field_rows txt =
     map (\<lambda>row. tl (butlast (py_split CHR ''|'' (py_strip row))))
       (filter (\<lambda>row. py_strip row \<noteq> []) (py_split (CHR 0x0A) (py_strip txt)))
   \<and> get_matrix_parse literal_msg ''1|2|3'' = Inr [[2]]
   \<and> start_matrix_data_parse literal_msg ''1|2|3'' = Inr [[2]]
   \<and> py_split CHR ''|'' (py_strip ''abc'') = [''abc'']
   \<and> py_int ''abc'' = None
   \<and> get_matrix_parse literal_msg ''abc'' = Inr []
   \<and> start_matrix_data_parse literal_msg ''abc'' = Inr []"
proof -
  have "field_rows txt =
     map (\<lambda>row. tl (butlast (py_split CHR ''|'' (py_strip row))))
       (filter (\<lambda>row. py_strip row \<noteq> []) (py_split (CHR 0x0A) (py_strip txt)))"
    by (simp add: field_rows_def slice_1_m1_def)
  moreover have "get_matrix_parse literal_msg ''1|2|3'' = Inr [[2]]" by code_simp
  moreover have "start_matrix_data_parse literal_msg ''1|2|3'' = Inr [[2]]" by code_simp
  moreover have "py_split CHR ''|'' (py_strip ''abc'') = [''abc'']" by code_simp
  moreover have "py_int ''abc'' = None" by code_simp
  moreover have "get_matrix_parse literal_msg ''abc'' = Inr []" by code_simp
  moreover have "start_matrix_data_parse literal_msg ''abc'' = Inr []" by code_simp
  ultimately show ?thesis by (intro conjI)
qed

section \<open>Properties of \<^verbatim>\<open>get_matrix\<close>\<close>

lemma try_block_world:
  "try_block lm sget url w = (r, w1) \<Longrightarrow> w1 = snd (sget url w)"
  by (auto simp: try_block_def split: prod.splits sum.splits if_splits)

lemma try_block_status:
  assumes "sget url w = (Inr response, w1)" and "status response \<noteq> 200"
  shows "try_block lm sget url w =
           (Inl (Exc ValueError
              ((if 500 \<le> status response
                then ''Server error occurred while fetching matrix from ''
                else ''Failed to fetch matrix from '') @ url
               @ ''. Status code: '' @ py_str_int (status response))),
            w1)"
  using assms by (simp add: try_block_def)

lemma handle_ValueError:
  "handle url (Exc ValueError txt) w =
     (Inl (Exc ValueError (''An error occurred while fetching matrix from '' @ url
                           @ ''. Error: '' @ txt)),
      w\<lparr>log_records := log_records w
           @ [(ERROR, ''An error occurred while fetching matrix from '' @ url
                      @ ''. Error: '' @ txt)]\<rparr>)"
  by (simp add: handle_def isinstance_def logger_error_def Let_def)

lemma sublist_last_of_four: "sublist e (a @ b @ c @ e)"
  by (metis append.assoc sublist_append_leftI)

lemma chain_has_url:
  "sublist url
     (if c1 then a1 @ url @ b1 @ x else if c2 then a2 @ url @ b2 @ x
      else if c3 then a3 @ url @ b3 @ x else if c4 then a4 @ url @ b4 @ x
      else if c5 then a5 @ url else a6 @ url @ b6 @ x)"
  by simp

lemma chain_has_cause:
  "\<not> (\<not> c1 \<and> \<not> c2 \<and> \<not> c3 \<and> \<not> c4 \<and> c5) \<Longrightarrow>
   sublist x
     (if c1 then a1 @ url @ b1 @ x else if c2 then a2 @ url @ b2 @ x
      else if c3 then a3 @ url @ b3 @ x else if c4 then a4 @ url @ b4 @ x
      else if c5 then a5 @ url else a6 @ url @ b6 @ x)"
  by (auto simp: sublist_last_of_four)

lemma handle_shape:
  "\<exists>msg. handle url e w = (Inl (Exc ValueError msg), w\<lparr>log_records := log_records w @ [(ERROR, msg)]\<rparr>)
     \<and> sublist url msg
     \<and> (if exc_cls e = TimeoutError then sublist ''Connection timeout'' msg
        else sublist (exc_str e) msg)"
proof -
  define msg where "msg =
        (if isinstance e ClientConnectionError
         then ''Failed to connect to the server at '' @ url @ ''. Error: '' @ exc_str e
         else if isinstance e ClientResponseError
         then ''Received unexpected response from the server at '' @ url
              @ ''. Error: '' @ exc_str e
         else if isinstance e ServerTimeoutError
         then ''Server at '' @ url @ '' timed out. Error: '' @ exc_str e
         else if isinstance e ServerDisconnectedError
         then ''Connection to server at '' @ url
              @ '' was unexpectedly disconnected. Error: '' @ exc_str e
         else if isinstance e TimeoutError
         then ''Connection timeout while fetching matrix from '' @ url
         else ''An error occurred while fetching matrix from '' @ url
              @ ''. Error: '' @ exc_str e)"
  have h: "handle url e w =
             (Inl (Exc ValueError msg), w\<lparr>log_records := log_records w @ [(ERROR, msg)]\<rparr>)"
    unfolding handle_def msg_def logger_error_def Let_def by (rule refl)
  have u: "sublist url msg"
    unfolding msg_def by (rule chain_has_url)
  have t: "sublist ''Connection timeout'' msg" if "exc_cls e = TimeoutError"
  proof -
    have "msg = ''Connection timeout while fetching matrix from '' @ url"
      using that by (simp only: msg_def isinstance_def) simp
    also have "\<dots> = ''Connection timeout'' @ '' while fetching matrix from '' @ url"
      by simp
    finally show ?thesis by (simp only: sublist_append_rightI)
  qed
  have c: "sublist (exc_str e) msg" if "exc_cls e \<noteq> TimeoutError"
  proof -
    have "\<not> (\<not> isinstance e ClientConnectionError \<and> \<not> isinstance e ClientResponseError
              \<and> \<not> isinstance e ServerTimeoutError \<and> \<not> isinstance e ServerDisconnectedError
              \<and> isinstance e TimeoutError)"
      using that by (auto simp: isinstance_def)
    then show ?thesis
      unfolding msg_def by (rule chain_has_cause)
  qed
  from h u t c show ?thesis by auto
qed

lemma int_row_ok:
  "\<forall>f\<in>set row. py_int f \<noteq> None \<Longrightarrow> \<exists>ns. int_row lm row = Inr ns"
  by (induction row) auto

lemma int_row_fail:
  "\<exists>f\<in>set row. py_int f = None \<Longrightarrow>
   \<exists>f\<in>set row. py_int f = None \<and> int_row lm row = Inl (Exc ValueError (lm f))"
proof (induction row)
  case Nil
  then show ?case by simp
next
  case (Cons g row)
  show ?case
  proof (cases "py_int g")
    case None
    then show ?thesis by simp
  next
    case (Some n)
    with Cons.prems have "\<exists>f\<in>set row. py_int f = None" by auto
    from Cons.IH [OF this] obtain f where "f \<in> set row" "py_int f = None"
      "int_row lm row = Inl (Exc ValueError (lm f))" by blast
    with Some show ?thesis by auto
  qed
qed

lemma convert_rows_fail:
  "\<exists>row\<in>set rows. \<exists>f\<in>set row. py_int f = None \<Longrightarrow>
   \<exists>row\<in>set rows. \<exists>f\<in>set row. py_int f = None
      \<and> convert_rows lm rows = Inl (Exc ValueError (lm f))"
proof (induction rows)
  case Nil
  then show ?case by simp
next
  case (Cons row rows)
  show ?case
  proof (cases "\<exists>f\<in>set row. py_int f = None")
    case True
    from int_row_fail [OF this] obtain f where f: "f \<in> set row" "py_int f = None"
      "int_row lm row = Inl (Exc ValueError (lm f))" by blast
    then have "row \<noteq> []" by auto
    with f show ?thesis by auto
  next
    case False
    then obtain ns where ns: "int_row lm row = Inr ns"
      using int_row_ok [of row lm] by auto
    from False Cons.prems have "\<exists>row\<in>set rows. \<exists>f\<in>set row. py_int f = None" by auto
    from Cons.IH [OF this] obtain r f where "r \<in> set rows" "f \<in> set r" "py_int f = None"
      "convert_rows lm rows = Inl (Exc ValueError (lm f))" by blast
    with ns show ?thesis by auto
  qed
qed

lemma sublist_self: "sublist x x"
  by simp

lemma sublist_in_tail: "sublist x ys \<Longrightarrow> sublist x (zs @ ys)"
  unfolding sublist_def by (metis append.assoc)

lemma py_int_rejects_separator: "py_int [CHR 0x1C, CHR ''5''] = None"
  by code_simp

text \<open>
  C5: when the response that \<^verbatim>\<open>session.get\<close> returns has a status other than 200,
  \<^verbatim>\<open>get_matrix\<close> raises the normalized error, whatever the body holds: the \<^verbatim>\<open>ValueError\<close>
  raised inside the block is taken by the last handler, so the message is the general one
  around "Server error occurred ..." for a status of 500 or more, around "Failed to fetch
  matrix ..." for any other status, and ends with the status code. The failure is logged and
  no result is returned.
\<close>

theorem bad_status_fails:
  assumes "sget url w = (Inr response, w1)" and "status response \<noteq> 200"
  shows "\<exists>msg. get_matrix lm sget url w =
              (Inl (Exc ValueError msg), w1\<lparr>log_records := log_records w1 @ [(ERROR, msg)]\<rparr>)
          \<and> msg = ''An error occurred while fetching matrix from '' @ url @ ''. Error: ''
                  @ (if 500 \<le> status response
                     then ''Server error occurred while fetching matrix from ''
                     else ''Failed to fetch matrix from '')
                  @ url @ ''. Status code: '' @ py_str_int (status response)
          \<and> sublist (py_str_int (status response)) msg"
proof -
  define inner where "inner =
     (if 500 \<le> status response
      then ''Server error occurred while fetching matrix from ''
      else ''Failed to fetch matrix from '')
     @ url @ ''. Status code: '' @ py_str_int (status response)"
  define msg where
    "msg = ''An error occurred while fetching matrix from '' @ url @ ''. Error: '' @ inner"
  have t: "try_block lm sget url w = (Inl (Exc ValueError inner), w1)"
    unfolding inner_def
    by (rule try_block_status [of sget url w response w1 lm, OF assms(1) assms(2)])
  have h: "handle url (Exc ValueError inner) w1 =
             (Inl (Exc ValueError msg), w1\<lparr>log_records := log_records w1 @ [(ERROR, msg)]\<rparr>)"
    unfolding msg_def by (rule handle_ValueError)
  have g: "get_matrix lm sget url w =
             (Inl (Exc ValueError msg), w1\<lparr>log_records := log_records w1 @ [(ERROR, msg)]\<rparr>)"
    by (simp add: get_matrix_def t h)
  have s: "sublist (py_str_int (status response)) msg"
    unfolding msg_def inner_def by (intro sublist_in_tail sublist_self)
  have m: "msg = ''An error occurred while fetching matrix from '' @ url @ ''. Error: ''
                  @ (if 500 \<le> status response
                     then ''Server error occurred while fetching matrix from ''
                     else ''Failed to fetch matrix from '')
                  @ url @ ''. Status code: '' @ py_str_int (status response)"
    unfolding msg_def inner_def by (rule refl)
  from g m s show ?thesis by blast
qed

theorem bad_status_fails_witness:
  "get_once (\<lambda>u. Inr \<lparr>status = 503, body = Inr ''|1|2|''\<rparr>) ''http://h/m.txt''
       \<lparr>requests = [], log_records = []\<rparr>
     = (Inr \<lparr>status = 503, body = Inr ''|1|2|''\<rparr>,
        \<lparr>requests = [''http://h/m.txt''], log_records = []\<rparr>)
   \<and> status \<lparr>status = 503, body = Inr ''|1|2|''\<rparr> \<noteq> 200
   \<and> get_matrix (\<lambda>f. f) (get_once (\<lambda>u. Inr \<lparr>status = 503, body = Inr ''|1|2|''\<rparr>))
         ''http://h/m.txt'' \<lparr>requests = [], log_records = []\<rparr>
       = (Inl (Exc ValueError
            (''An error occurred while fetching matrix from http://h/m.txt. Error: ''
             @ ''Server error occurred while fetching matrix from http://h/m.txt. ''
             @ ''Status code: 503'')),
          \<lparr>requests = [''http://h/m.txt''],
             log_records = [(ERROR,
               ''An error occurred while fetching matrix from http://h/m.txt. Error: ''
               @ ''Server error occurred while fetching matrix from http://h/m.txt. ''
               @ ''Status code: 503'')]\<rparr>)"
proof -
  have c: "py_str_int 503 = ''503''" by code_simp
  have a: "get_once (\<lambda>u. Inr \<lparr>status = 503, body = Inr ''|1|2|''\<rparr>) ''http://h/m.txt''
       \<lparr>requests = [], log_records = []\<rparr>
     = (Inr \<lparr>status = 503, body = Inr ''|1|2|''\<rparr>,
        \<lparr>requests = [''http://h/m.txt''], log_records = []\<rparr>)"
    by (simp add: get_once_def)
  have b: "status \<lparr>status = 503, body = Inr ''|1|2|''\<rparr> \<noteq> 200" by simp
  show ?thesis
    using a b bad_status_fails [of "get_once (\<lambda>u. Inr \<lparr>status = 503, body = Inr ''|1|2|''\<rparr>)"
                 "''http://h/m.txt''" "\<lparr>requests = [], log_records = []\<rparr>"
                 "\<lparr>status = 503, body = Inr ''|1|2|''\<rparr>"
                 "\<lparr>requests = [''http://h/m.txt''], log_records = []\<rparr>" "\<lambda>f. f", OF a b]
    by (simp add: c)
qed

text \<open>
  C6, as the code has it: whatever exception leaves the guarded block (a failed connection,
  a bad status, a timeout, a disconnect, a field that is not a number, an out-of-range
  read, anything else), the caller gets a \<^verbatim>\<open>ValueError\<close>; its message holds the URL and the
  cause (the text of the exception, or for the plain timeout the fixed words "Connection
  timeout"); the same message is logged at error level before it is raised; and
  \<^verbatim>\<open>get_matrix\<close> itself retries nothing: the world it leaves is the world after its one call
  of \<^verbatim>\<open>session.get\<close>, with the one log record added. How many requests that one call sends
  is decided by aiohttp, not by this function.
\<close>

theorem failure_normalized_and_logged:
  assumes "fst (try_block lm sget url w) = Inl e"
  shows "\<exists>msg. get_matrix lm sget url w =
              (Inl (Exc ValueError msg),
               (snd (sget url w))\<lparr>log_records :=
                  log_records (snd (sget url w)) @ [(ERROR, msg)]\<rparr>)
          \<and> sublist url msg
          \<and> (if exc_cls e = TimeoutError then sublist ''Connection timeout'' msg
             else sublist (exc_str e) msg)"
proof -
  obtain w1 where t: "try_block lm sget url w = (Inl e, w1)"
    using assms by (cases "try_block lm sget url w") auto
  have w1: "w1 = snd (sget url w)"
    by (rule try_block_world [OF t])
  from handle_shape [of url e w1] obtain msg where
    "handle url e w1 = (Inl (Exc ValueError msg), w1\<lparr>log_records := log_records w1 @ [(ERROR, msg)]\<rparr>)"
    "sublist url msg"
    "if exc_cls e = TimeoutError then sublist ''Connection timeout'' msg else sublist (exc_str e) msg"
    by blast
  then show ?thesis
    by (intro exI [of _ msg]) (simp add: get_matrix_def t w1)
qed

theorem failure_normalized_and_logged_witness:
  "fst (try_block (\<lambda>f. f) (get_once (\<lambda>u. Inl (Exc ClientConnectionError ''Cannot connect'')))
          ''http://h/m.txt'' \<lparr>requests = [], log_records = []\<rparr>)
     = Inl (Exc ClientConnectionError ''Cannot connect'')
   \<and> (\<exists>msg. get_matrix (\<lambda>f. f) (get_once (\<lambda>u. Inl (Exc ClientConnectionError ''Cannot connect'')))
                ''http://h/m.txt'' \<lparr>requests = [], log_records = []\<rparr>
              = (Inl (Exc ValueError msg),
                 \<lparr>requests = [''http://h/m.txt''], log_records = [(ERROR, msg)]\<rparr>)
            \<and> sublist ''http://h/m.txt'' msg \<and> sublist ''Cannot connect'' msg)"
proof -
  have h: "fst (try_block (\<lambda>f. f) (get_once (\<lambda>u. Inl (Exc ClientConnectionError ''Cannot connect'')))
                 ''http://h/m.txt'' \<lparr>requests = [], log_records = []\<rparr>)
             = Inl (Exc ClientConnectionError ''Cannot connect'')"
    by (simp add: try_block_def get_once_def)
  show ?thesis
    using h failure_normalized_and_logged [OF h] by (simp add: get_once_def)
qed

text \<open>
  C6 as the specification states it also promises exactly one outbound request for every
  invocation. That part fails: with a client that sends the request again after a dropped
  connection, one invocation of \<^verbatim>\<open>get_matrix\<close> that ends in the disconnect has put two
  requests on the wire.
\<close>

theorem one_request_counterexample:
  "fst (try_block id get_resending ''http://h/m.txt'' \<lparr>requests = [], log_records = []\<rparr>)
     = Inl (Exc ServerDisconnectedError ''Server disconnected'')
   \<and> get_matrix id get_resending ''http://h/m.txt'' \<lparr>requests = [], log_records = []\<rparr>
     = (Inl (Exc ValueError
          ''Failed to connect to the server at http://h/m.txt. Error: Server disconnected''),
        \<lparr>requests = [''http://h/m.txt'', ''http://h/m.txt''],
           log_records = [(ERROR,
          ''Failed to connect to the server at http://h/m.txt. Error: Server disconnected'')]\<rparr>)
   \<and> length (requests (snd (get_matrix id get_resending ''http://h/m.txt''
                               \<lparr>requests = [], log_records = []\<rparr>))) \<noteq> 1"
  by (simp add: get_matrix_def try_block_def get_resending_def handle_def isinstance_def
        logger_error_def Let_def)

text \<open>
  C7: when the body of a response with status 200 holds, after the filtering of lines and
  the dropping of the first and last field, a field that \<^verbatim>\<open>int\<close> rejects, \<^verbatim>\<open>get_matrix\<close> fails
  through the last handler: the conversion error of such a field is wrapped in the general
  message, logged and raised as \<^verbatim>\<open>ValueError\<close>.
\<close>

theorem non_numeric_field_generic_failure:
  assumes "sget url w = (Inr response, w1)" and "status response = 200"
    and "body response = Inr txt"
    and "\<exists>row\<in>set (field_rows txt). \<exists>f\<in>set row. py_int f = None"
  shows "\<exists>row\<in>set (field_rows txt). \<exists>f\<in>set row. py_int f = None
           \<and> get_matrix lm sget url w =
               (Inl (Exc ValueError (''An error occurred while fetching matrix from '' @ url
                                     @ ''. Error: '' @ lm f)),
                w1\<lparr>log_records := log_records w1
                     @ [(ERROR, ''An error occurred while fetching matrix from '' @ url
                                @ ''. Error: '' @ lm f)]\<rparr>)"
proof -
  from convert_rows_fail [OF assms(4), of lm] obtain row f where
    rf: "row \<in> set (field_rows txt)" "f \<in> set row" "py_int f = None"
    and c: "get_matrix_parse lm txt = Inl (Exc ValueError (lm f))"
    unfolding get_matrix_parse_def by blast
  have "try_block lm sget url w = (Inl (Exc ValueError (lm f)), w1)"
    using assms(1-3) c by (simp add: try_block_def)
  then have "get_matrix lm sget url w =
               (Inl (Exc ValueError (''An error occurred while fetching matrix from '' @ url
                                     @ ''. Error: '' @ lm f)),
                w1\<lparr>log_records := log_records w1
                     @ [(ERROR, ''An error occurred while fetching matrix from '' @ url
                                @ ''. Error: '' @ lm f)]\<rparr>)"
    by (simp add: get_matrix_def handle_ValueError)
  with rf show ?thesis by blast
qed

theorem non_numeric_field_generic_failure_witness:
  "get_once (\<lambda>u. Inr \<lparr>status = 200, body = Inr (''|1|'' @ [CHR 0x1C] @ ''5|'')\<rparr>)
       ''http://h/m.txt'' \<lparr>requests = [], log_records = []\<rparr>
     = (Inr \<lparr>status = 200, body = Inr (''|1|'' @ [CHR 0x1C] @ ''5|'')\<rparr>,
        \<lparr>requests = [''http://h/m.txt''], log_records = []\<rparr>)
   \<and> status \<lparr>status = 200, body = Inr (''|1|'' @ [CHR 0x1C] @ ''5|'')\<rparr> = 200
   \<and> body \<lparr>status = 200, body = Inr (''|1|'' @ [CHR 0x1C] @ ''5|'')\<rparr>
        = Inr (''|1|'' @ [CHR 0x1C] @ ''5|'')
   \<and> field_rows (''|1|'' @ [CHR 0x1C] @ ''5|'') = [[''1'', [CHR 0x1C, CHR ''5'']]]
   \<and> py_int ''1'' = Some 1 \<and> py_int [CHR 0x1C, CHR ''5''] = None
   \<and> get_matrix (\<lambda>f. ''bad literal: '' @ f)
        (get_once (\<lambda>u. Inr \<lparr>status = 200, body = Inr (''|1|'' @ [CHR 0x1C] @ ''5|'')\<rparr>))
        ''http://h/m.txt'' \<lparr>requests = [], log_records = []\<rparr>
      = (Inl (Exc ValueError (''An error occurred while fetching matrix from http://h/m.txt''
                              @ ''. Error: bad literal: '' @ [CHR 0x1C, CHR ''5''])),
         \<lparr>requests = [''http://h/m.txt''],
            log_records = [(ERROR, ''An error occurred while fetching matrix from http://h/m.txt''
                              @ ''. Error: bad literal: '' @ [CHR 0x1C, CHR ''5''])]\<rparr>)"
proof -
  have r: "field_rows (''|1|'' @ [CHR 0x1C] @ ''5|'') = [[''1'', [CHR 0x1C, CHR ''5'']]]"
    by code_simp
  have p: "py_int ''1'' = Some 1" "py_int [CHR 0x1C, CHR ''5''] = None"
    by code_simp+
  have h: "\<exists>row\<in>set (field_rows (''|1|'' @ [CHR 0x1C] @ ''5|'')). \<exists>f\<in>set row. py_int f = None"
    unfolding r using p by simp
  have a: "get_once (\<lambda>u. Inr \<lparr>status = 200, body = Inr (''|1|'' @ [CHR 0x1C] @ ''5|'')\<rparr>)
       ''http://h/m.txt'' \<lparr>requests = [], log_records = []\<rparr>
     = (Inr \<lparr>status = 200, body = Inr (''|1|'' @ [CHR 0x1C] @ ''5|'')\<rparr>,
        \<lparr>requests = [''http://h/m.txt''], log_records = []\<rparr>)"
    by (simp add: get_once_def)
  have b: "status \<lparr>status = 200, body = Inr (''|1|'' @ [CHR 0x1C] @ ''5|'')\<rparr> = 200"
    "body \<lparr>status = 200, body = Inr (''|1|'' @ [CHR 0x1C] @ ''5|'')\<rparr>
        = Inr (''|1|'' @ [CHR 0x1C] @ ''5|'')"
    by simp_all
  from non_numeric_field_generic_failure
         [of "get_once (\<lambda>u. Inr \<lparr>status = 200, body = Inr (''|1|'' @ [CHR 0x1C] @ ''5|'')\<rparr>)"
             "''http://h/m.txt''" "\<lparr>requests = [], log_records = []\<rparr>"
             "\<lparr>status = 200, body = Inr (''|1|'' @ [CHR 0x1C] @ ''5|'')\<rparr>"
             "\<lparr>requests = [''http://h/m.txt''], log_records = []\<rparr>"
             "''|1|'' @ [CHR 0x1C] @ ''5|''" "\<lambda>f. ''bad literal: '' @ f", OF a b h]
  have "get_matrix (\<lambda>f. ''bad literal: '' @ f)
        (get_once (\<lambda>u. Inr \<lparr>status = 200, body = Inr (''|1|'' @ [CHR 0x1C] @ ''5|'')\<rparr>))
        ''http://h/m.txt'' \<lparr>requests = [], log_records = []\<rparr>
      = (Inl (Exc ValueError (''An error occurred while fetching matrix from http://h/m.txt''
                              @ ''. Error: bad literal: '' @ [CHR 0x1C, CHR ''5''])),
         \<lparr>requests = [''http://h/m.txt''],
            log_records = [(ERROR, ''An error occurred while fetching matrix from http://h/m.txt''
                              @ ''. Error: bad literal: '' @ [CHR 0x1C, CHR ''5''])]\<rparr>)"
    unfolding r using p by simp
  with a b r p show ?thesis by (intro conjI)
qed

end
